theory Spec2Isabelle
  imports Complex_Main "HOL-Library.Word"
begin

section \<open>Errors\<close>

text \<open>
  The three exceptions of class \<open>Errors\<close> (\<open>throw_out_of_range\<close>,
  \<open>throw_invalid_argument\<close>, \<open>throw_runtime_error\<close>). They are the standard
  exceptions \<open>std::out_of_range\<close>, \<open>std::invalid_argument\<close> and
  \<open>std::runtime_error\<close>, which the standard library raises under the same names
  (\<open>vector::at\<close>, \<open>std::stoi\<close>).
\<close>

datatype error = OutOfRange | InvalidArgument | RuntimeError

section \<open>The underlying \<open>std::vector\<close>\<close>

text \<open>
  Both headers keep one member, \<open>m_data\<close>, a \<open>std::vector<T>\<close>. A vector is
  its element sequence together with the capacity of the allocated buffer. The
  capacity after a reallocation is the one of the GNU implementation
  (\<open>_M_check_len\<close>: the size plus the larger of the size and the number of elements
  being added); allocation is taken never to fail. Positions (\<open>size_t\<close>) are natural
  numbers.
\<close>

record 'a vector =
  elems :: "'a list"
  cap :: nat

definition vec_default :: "'a vector" where
  "vec_default = \<lparr>elems = [], cap = 0\<rparr>"

definition vec_sized :: "'a \<Rightarrow> nat \<Rightarrow> 'a vector" where
  "vec_sized d n = \<lparr>elems = replicate n d, cap = n\<rparr>"

definition vec_range :: "'a list \<Rightarrow> 'a vector" where
  "vec_range xs = \<lparr>elems = xs, cap = length xs\<rparr>"

definition vec_size :: "'a vector \<Rightarrow> nat" where
  "vec_size v = length (elems v)"

definition vec_empty :: "'a vector \<Rightarrow> bool" where
  "vec_empty v = (elems v = [])"

definition vec_capacity :: "'a vector \<Rightarrow> nat" where
  "vec_capacity v = cap v"

definition vec_check_len :: "'a vector \<Rightarrow> nat \<Rightarrow> nat" where
  "vec_check_len v n = vec_size v + max (vec_size v) n"

text \<open>\<open>vector::at\<close> is the checked access of the standard library.\<close>

definition vec_at :: "'a vector \<Rightarrow> nat \<Rightarrow> error + 'a" where
  "vec_at v pos = (if pos \<ge> vec_size v then Inl OutOfRange else Inr (elems v ! pos))"

text \<open>
  \<open>push_back\<close> and \<open>emplace_back\<close>: in place while the buffer has room
  (\<open>_M_finish != _M_end_of_storage\<close>), otherwise into a new buffer.
\<close>

definition vec_push_back :: "'a vector \<Rightarrow> 'a \<Rightarrow> 'a vector" where
  "vec_push_back v x =
     \<lparr>elems = elems v @ [x],
      cap = (if vec_size v = cap v then vec_check_len v 1 else cap v)\<rparr>"

text \<open>
  \<open>insert(begin() + pos, value)\<close> and \<open>emplace\<close>, for \<open>pos \<le> size\<close> (every caller
  in the headers checks the position or passes \<open>begin()\<close> or \<open>end()\<close>).
\<close>

definition vec_insert :: "'a vector \<Rightarrow> nat \<Rightarrow> 'a \<Rightarrow> 'a vector" where
  "vec_insert v pos x =
     \<lparr>elems = take pos (elems v) @ x # drop pos (elems v),
      cap = (if vec_size v = cap v then vec_check_len v 1 else cap v)\<rparr>"

text \<open>\<open>insert(begin() + pos, first, last)\<close>: nothing happens for an empty range.\<close>

definition vec_insert_range :: "'a vector \<Rightarrow> nat \<Rightarrow> 'a list \<Rightarrow> 'a vector" where
  "vec_insert_range v pos xs =
     (if xs = [] then v
      else \<lparr>elems = take pos (elems v) @ xs @ drop pos (elems v),
            cap = (if length xs \<le> cap v - vec_size v then cap v
                   else vec_check_len v (length xs))\<rparr>)"

text \<open>\<open>erase(begin() + pos)\<close>, for \<open>pos < size\<close>.\<close>

definition vec_erase :: "'a vector \<Rightarrow> nat \<Rightarrow> 'a vector" where
  "vec_erase v pos = v\<lparr>elems := take pos (elems v) @ drop (Suc pos) (elems v)\<rparr>"

text \<open>
  \<open>pop_back\<close>, for a non-empty vector. On an empty vector the behaviour is
  undefined, so a caller that does not check is modelled with that case written out.
\<close>

definition vec_pop_back :: "'a vector \<Rightarrow> 'a vector" where
  "vec_pop_back v = v\<lparr>elems := butlast (elems v)\<rparr>"

definition vec_reserve :: "'a vector \<Rightarrow> nat \<Rightarrow> 'a vector" where
  "vec_reserve v n = (if cap v < n then v\<lparr>cap := n\<rparr> else v)"

text \<open>\<open>resize(n)\<close>: \<open>d\<close> is the value-initialised element \<open>T{}\<close>.\<close>

definition vec_resize :: "'a \<Rightarrow> 'a vector \<Rightarrow> nat \<Rightarrow> 'a vector" where
  "vec_resize d v n =
     (if vec_size v < n then
        \<lparr>elems = elems v @ replicate (n - vec_size v) d,
         cap = (if n - vec_size v \<le> cap v - vec_size v then cap v
                else vec_check_len v (n - vec_size v))\<rparr>
      else if n < vec_size v then v\<lparr>elems := take n (elems v)\<rparr>
      else v)"

definition vec_clear :: "'a vector \<Rightarrow> 'a vector" where
  "vec_clear v = v\<lparr>elems := []\<rparr>"

definition vec_shrink_to_fit :: "'a vector \<Rightarrow> 'a vector" where
  "vec_shrink_to_fit v = v\<lparr>cap := vec_size v\<rparr>"

text \<open>
  The standard algorithms the headers call. \<open>std::max_element\<close> and
  \<open>std::min_element\<close> keep the first extremal element: the candidate changes only
  when it is strictly smaller (larger) than the element visited.
\<close>

fun max_element :: "'a::linorder \<Rightarrow> 'a list \<Rightarrow> 'a" where
  "max_element m [] = m"
| "max_element m (x # xs) = max_element (if m < x then x else m) xs"

fun min_element :: "'a::linorder \<Rightarrow> 'a list \<Rightarrow> 'a" where
  "min_element m [] = m"
| "min_element m (x # xs) = min_element (if x < m then x else m) xs"

section \<open>The store\<close>

text \<open>
  \<open>Store<T>\<close>, in both headers, is a class with the single data member \<open>m_data\<close>.
  The functions of \<open>advance_store.hpp\<close> keep their names (with the suffix
  \<open>_store\<close> where the name is taken); those of \<open>advance_store_mini.hpp\<close> carry the
  prefix \<open>mini_\<close>. A member function that only reads returns its value or the
  exception it throws. A member function that changes the store returns the new
  store, and when it may throw after checking, the exception, if any, together with
  the store it leaves behind.
\<close>

record 'a Store =
  m_data :: "'a vector"

definition Store_default :: "'a Store" where
  "Store_default = \<lparr>m_data = vec_default\<rparr>"

definition Store_sized :: "'a \<Rightarrow> nat \<Rightarrow> 'a Store" where
  "Store_sized d n = \<lparr>m_data = vec_sized d n\<rparr>"

definition Store_list :: "'a list \<Rightarrow> 'a Store" where
  "Store_list xs = \<lparr>m_data = vec_range xs\<rparr>"

definition size_store :: "'a Store \<Rightarrow> nat" where
  "size_store s = vec_size (m_data s)"

definition empty_store :: "'a Store \<Rightarrow> bool" where
  "empty_store s = vec_empty (m_data s)"

definition capacity :: "'a Store \<Rightarrow> nat" where
  "capacity s = vec_capacity (m_data s)"

subsection \<open>Element access (full variant)\<close>

definition at_store :: "'a Store \<Rightarrow> nat \<Rightarrow> error + 'a" where
  "at_store s pos = (if pos \<ge> vec_size (m_data s) then Inl OutOfRange
               else Inr (elems (m_data s) ! pos))"

definition front :: "'a Store \<Rightarrow> error + 'a" where
  "front s = (if vec_empty (m_data s) then Inl OutOfRange
              else Inr (hd (elems (m_data s))))"

definition mid :: "'a Store \<Rightarrow> error + 'a" where
  "mid s = (if vec_empty (m_data s) then Inl OutOfRange
            else Inr (elems (m_data s) ! (vec_size (m_data s) div 2)))"

definition back_store :: "'a Store \<Rightarrow> error + 'a" where
  "back_store s = (if vec_empty (m_data s) then Inl OutOfRange
                   else Inr (last (elems (m_data s))))"

definition max_store :: "'a::linorder Store \<Rightarrow> error + 'a" where
  "max_store s = (if vec_empty (m_data s) then Inl OutOfRange
                  else Inr (max_element (hd (elems (m_data s))) (tl (elems (m_data s)))))"

definition min_store :: "'a::linorder Store \<Rightarrow> error + 'a" where
  "min_store s = (if vec_empty (m_data s) then Inl OutOfRange
                  else Inr (min_element (hd (elems (m_data s))) (tl (elems (m_data s)))))"

subsection \<open>Capacity and basic operations (full variant)\<close>

definition plus_assign :: "'a Store \<Rightarrow> 'a Store \<Rightarrow> 'a Store" where
  "plus_assign s other =
     s\<lparr>m_data := vec_insert_range (m_data s) (vec_size (m_data s)) (elems (m_data other))\<rparr>"

definition reserve :: "'a Store \<Rightarrow> nat \<Rightarrow> 'a Store" where
  "reserve s new_capacity = s\<lparr>m_data := vec_reserve (m_data s) new_capacity\<rparr>"

definition resize :: "'a \<Rightarrow> 'a Store \<Rightarrow> nat \<Rightarrow> 'a Store" where
  "resize d s new_size = s\<lparr>m_data := vec_resize d (m_data s) new_size\<rparr>"

definition clear :: "'a Store \<Rightarrow> 'a Store" where
  "clear s = s\<lparr>m_data := vec_clear (m_data s)\<rparr>"

definition shrink_to_fit :: "'a Store \<Rightarrow> 'a Store" where
  "shrink_to_fit s = s\<lparr>m_data := vec_shrink_to_fit (m_data s)\<rparr>"

definition pop_front :: "'a Store \<Rightarrow> error option \<times> 'a Store" where
  "pop_front s = (if vec_empty (m_data s) then (Some OutOfRange, s)
                  else (None, s\<lparr>m_data := vec_erase (m_data s) 0\<rparr>))"

definition pop_back :: "'a Store \<Rightarrow> error option \<times> 'a Store" where
  "pop_back s = (if vec_empty (m_data s) then (Some OutOfRange, s)
                 else (None, s\<lparr>m_data := vec_pop_back (m_data s)\<rparr>))"

definition remove_at :: "'a Store \<Rightarrow> nat \<Rightarrow> error option \<times> 'a Store" where
  "remove_at s pos = (if pos \<ge> vec_size (m_data s) then (Some OutOfRange, s)
                      else (None, s\<lparr>m_data := vec_erase (m_data s) pos\<rparr>))"

definition insert_store :: "'a Store \<Rightarrow> nat \<Rightarrow> 'a \<Rightarrow> error option \<times> 'a Store" where
  "insert_store s pos v = (if pos > vec_size (m_data s) then (Some OutOfRange, s)
                           else (None, s\<lparr>m_data := vec_insert (m_data s) pos v\<rparr>))"

definition replace_at :: "'a Store \<Rightarrow> nat \<Rightarrow> 'a \<Rightarrow> error option \<times> 'a Store" where
  "replace_at s pos v =
     (if pos \<ge> vec_size (m_data s) then (Some OutOfRange, s)
      else (None, s\<lparr>m_data := (m_data s)\<lparr>elems := (elems (m_data s))[pos := v]\<rparr>\<rparr>))"

definition replace_all :: "'a Store \<Rightarrow> 'a \<Rightarrow> 'a \<Rightarrow> 'a Store" where
  "replace_all s old_value new_value =
     s\<lparr>m_data := (m_data s)\<lparr>elems :=
        map (\<lambda>e. if e = old_value then new_value else e) (elems (m_data s))\<rparr>\<rparr>"

definition fill :: "'a Store \<Rightarrow> 'a \<Rightarrow> 'a Store" where
  "fill s v = s\<lparr>m_data := (m_data s)\<lparr>elems := map (\<lambda>e. v) (elems (m_data s))\<rparr>\<rparr>"

definition reverse :: "'a Store \<Rightarrow> 'a Store" where
  "reverse s = s\<lparr>m_data := (m_data s)\<lparr>elems := rev (elems (m_data s))\<rparr>\<rparr>"

definition swap_store :: "'a Store \<Rightarrow> 'a Store \<Rightarrow> 'a Store \<times> 'a Store" where
  "swap_store s other = (s\<lparr>m_data := m_data other\<rparr>, other\<lparr>m_data := m_data s\<rparr>)"

subsection \<open>Adding elements (full variant)\<close>

definition push_front_range :: "'a Store \<Rightarrow> 'a list \<Rightarrow> 'a Store" where
  "push_front_range s container = s\<lparr>m_data := vec_insert_range (m_data s) 0 container\<rparr>"

definition push_front :: "'a Store \<Rightarrow> 'a \<Rightarrow> 'a Store" where
  "push_front s v = s\<lparr>m_data := vec_insert (m_data s) 0 v\<rparr>"

definition push_back_range :: "'a Store \<Rightarrow> 'a list \<Rightarrow> 'a Store" where
  "push_back_range s container =
     s\<lparr>m_data := vec_insert_range (m_data s) (vec_size (m_data s)) container\<rparr>"

definition push_back :: "'a Store \<Rightarrow> 'a \<Rightarrow> 'a Store" where
  "push_back s v = s\<lparr>m_data := vec_push_back (m_data s) v\<rparr>"

definition emplace_back :: "'a Store \<Rightarrow> 'a \<Rightarrow> 'a Store" where
  "emplace_back s v = s\<lparr>m_data := vec_push_back (m_data s) v\<rparr>"

definition emplace_front :: "'a Store \<Rightarrow> 'a \<Rightarrow> 'a Store" where
  "emplace_front s v = s\<lparr>m_data := vec_insert (m_data s) 0 v\<rparr>"

subsection \<open>Transformation, filtering, sorting (full variant)\<close>

definition transform :: "'a Store \<Rightarrow> ('a \<Rightarrow> 'a) \<Rightarrow> 'a Store" where
  "transform s func = s\<lparr>m_data := (m_data s)\<lparr>elems := map func (elems (m_data s))\<rparr>\<rparr>"

text \<open>The loop of \<open>filter\<close> pushes onto a default-constructed result, element by element.\<close>

definition filter_store :: "'a Store \<Rightarrow> ('a \<Rightarrow> bool) \<Rightarrow> 'a Store" where
  "filter_store s pred =
     fold (\<lambda>elem result. if pred elem then push_back result elem else result)
       (elems (m_data s)) Store_default"

text \<open>
  \<open>std::sort\<close> on a linearly ordered element type yields the ascending arrangement,
  and with \<open>std::greater\<close> the descending one.
\<close>

definition sort_store :: "'a::linorder Store \<Rightarrow> bool \<Rightarrow> 'a Store" where
  "sort_store s ascending =
     (if ascending then s\<lparr>m_data := (m_data s)\<lparr>elems := sort (elems (m_data s))\<rparr>\<rparr>
      else s\<lparr>m_data := (m_data s)\<lparr>elems := rev (sort (elems (m_data s)))\<rparr>\<rparr>)"

text \<open>
  \<open>std::unique\<close> keeps the first element of every run of equal neighbours; the
  \<open>erase\<close> that follows cuts the tail off.
\<close>

definition vec_unique :: "'a vector \<Rightarrow> 'a vector" where
  "vec_unique v = v\<lparr>elems := remdups_adj (elems v)\<rparr>"

definition unique :: "'a::linorder Store \<Rightarrow> bool \<Rightarrow> 'a Store" where
  "unique s auto_sort =
     (let s1 = (if auto_sort then sort_store s True else s)
      in s1\<lparr>m_data := vec_unique (m_data s1)\<rparr>)"

section \<open>The minimal variant\<close>

definition mini_at :: "'a Store \<Rightarrow> nat \<Rightarrow> error + 'a" where
  "mini_at s pos = vec_at (m_data s) pos"

definition mini_reserve :: "'a Store \<Rightarrow> nat \<Rightarrow> 'a Store" where
  "mini_reserve s new_capacity = s\<lparr>m_data := vec_reserve (m_data s) new_capacity\<rparr>"

definition mini_resize :: "'a \<Rightarrow> 'a Store \<Rightarrow> nat \<Rightarrow> 'a Store" where
  "mini_resize d s new_size = s\<lparr>m_data := vec_resize d (m_data s) new_size\<rparr>"

definition mini_shrink_to_fit :: "'a Store \<Rightarrow> 'a Store" where
  "mini_shrink_to_fit s = s\<lparr>m_data := vec_shrink_to_fit (m_data s)\<rparr>"

definition mini_clear :: "'a Store \<Rightarrow> 'a Store" where
  "mini_clear s = s\<lparr>m_data := vec_clear (m_data s)\<rparr>"

definition mini_push_front :: "'a Store \<Rightarrow> 'a \<Rightarrow> 'a Store" where
  "mini_push_front s v = s\<lparr>m_data := vec_insert (m_data s) 0 v\<rparr>"

definition mini_pop_front :: "'a Store \<Rightarrow> 'a Store" where
  "mini_pop_front s = (if \<not> vec_empty (m_data s) then s\<lparr>m_data := vec_erase (m_data s) 0\<rparr>
                       else s)"

definition mini_push_back :: "'a Store \<Rightarrow> 'a \<Rightarrow> 'a Store" where
  "mini_push_back s v = s\<lparr>m_data := vec_push_back (m_data s) v\<rparr>"

text \<open>
  \<open>pop_back\<close> of the minimal variant calls \<open>m_data.pop_back()\<close> unguarded: on an
  empty store the behaviour is undefined, which is the result \<open>None\<close>.
\<close>

definition mini_pop_back :: "'a Store \<Rightarrow> 'a Store option" where
  "mini_pop_back s = (if vec_empty (m_data s) then None
                      else Some (s\<lparr>m_data := vec_pop_back (m_data s)\<rparr>))"

definition mini_emplace_back :: "'a Store \<Rightarrow> 'a \<Rightarrow> 'a Store" where
  "mini_emplace_back s v = s\<lparr>m_data := vec_push_back (m_data s) v\<rparr>"

definition mini_emplace_front :: "'a Store \<Rightarrow> 'a \<Rightarrow> 'a Store" where
  "mini_emplace_front s v = s\<lparr>m_data := vec_insert (m_data s) 0 v\<rparr>"

definition mini_fill :: "'a Store \<Rightarrow> 'a \<Rightarrow> 'a Store" where
  "mini_fill s v = s\<lparr>m_data := (m_data s)\<lparr>elems := map (\<lambda>e. v) (elems (m_data s))\<rparr>\<rparr>"

definition mini_reverse :: "'a Store \<Rightarrow> 'a Store" where
  "mini_reverse s = s\<lparr>m_data := (m_data s)\<lparr>elems := rev (elems (m_data s))\<rparr>\<rparr>"

definition mini_sort :: "'a::linorder Store \<Rightarrow> bool \<Rightarrow> 'a Store" where
  "mini_sort s ascending =
     (if ascending then s\<lparr>m_data := (m_data s)\<lparr>elems := sort (elems (m_data s))\<rparr>\<rparr>
      else s\<lparr>m_data := (m_data s)\<lparr>elems := rev (sort (elems (m_data s)))\<rparr>\<rparr>)"

definition mini_unique :: "'a Store \<Rightarrow> 'a Store" where
  "mini_unique s = s\<lparr>m_data := vec_unique (m_data s)\<rparr>"

definition mini_remove_at :: "'a Store \<Rightarrow> nat \<Rightarrow> 'a Store" where
  "mini_remove_at s pos = (if pos < vec_size (m_data s)
                           then s\<lparr>m_data := vec_erase (m_data s) pos\<rparr> else s)"

definition mini_insert :: "'a Store \<Rightarrow> nat \<Rightarrow> 'a \<Rightarrow> 'a Store" where
  "mini_insert s pos v = (if pos \<le> vec_size (m_data s)
                          then s\<lparr>m_data := vec_insert (m_data s) pos v\<rparr> else s)"

definition mini_replace_all :: "'a Store \<Rightarrow> 'a \<Rightarrow> 'a \<Rightarrow> 'a Store" where
  "mini_replace_all s old_value new_value =
     s\<lparr>m_data := (m_data s)\<lparr>elems :=
        map (\<lambda>e. if e = old_value then new_value else e) (elems (m_data s))\<rparr>\<rparr>"

subsection \<open>Sum and average\<close>

text \<open>
  \<open>sum\<close> and \<open>average\<close> are generic in \<open>T\<close> and compute in \<open>double\<close>. The
  arithmetic they use is a parameter: \<open>T{}\<close>, the addition of \<open>T\<close>, the conversions
  to \<open>double\<close> of a \<open>T\<close> and of a \<open>size_t\<close>, the division of \<open>double\<close> and the
  constant \<open>0.0\<close>.
\<close>

record ('a, 'd) arith =
  zero_T :: 'a
  plus_T :: "'a \<Rightarrow> 'a \<Rightarrow> 'a"
  double_of_T :: "'a \<Rightarrow> 'd"
  double_of_size :: "nat \<Rightarrow> 'd"
  divide_double :: "'d \<Rightarrow> 'd \<Rightarrow> 'd"
  zero_double :: 'd

text \<open>
  A division of a \<open>double\<close> by a size. The result \<open>None\<close> records that the divisor
  was zero.
\<close>

definition divide_by_size :: "('a, 'd) arith \<Rightarrow> 'd \<Rightarrow> nat \<Rightarrow> 'd option" where
  "divide_by_size A x n =
     (if n = 0 then None else Some (divide_double A x (double_of_size A n)))"

definition mini_sum :: "('a, 'd) arith \<Rightarrow> 'a Store \<Rightarrow> 'a" where
  "mini_sum A s = foldl (plus_T A) (zero_T A) (elems (m_data s))"

definition mini_average :: "('a, 'd) arith \<Rightarrow> 'a Store \<Rightarrow> 'd option" where
  "mini_average A s =
     (if vec_empty (m_data s) then Some (zero_double A)
      else divide_by_size A (double_of_T A (mini_sum A s)) (vec_size (m_data s)))"

section \<open>Type conversion (full variant)\<close>

text \<open>
  \<open>int\<close> is a 32-bit two's complement integer, read with \<^const>\<open>sint\<close>; a
  \<open>std::string\<close> is a list of 8-bit characters.
\<close>

type_synonym int32 = "32 word"

text \<open>
  \<open>std::stoi(val)\<close> parses in base 10 as \<open>strtol\<close> does: white space is skipped, one
  sign is accepted, then the longest run of digits is read and whatever follows is
  ignored. No digit is \<open>std::invalid_argument\<close>; a value that is not an \<open>int\<close> is
  \<open>std::out_of_range\<close>.
\<close>

definition isspace :: "char \<Rightarrow> bool" where
  "isspace c = (c = CHR '' '' \<or> c = CHR 0x09 \<or> c = CHR 0x0A \<or> c = CHR 0x0B \<or>
                c = CHR 0x0C \<or> c = CHR 0x0D)"

definition isdigit :: "char \<Rightarrow> bool" where
  "isdigit c = (48 \<le> (of_char c :: nat) \<and> (of_char c :: nat) \<le> 57)"

definition digit_value :: "char \<Rightarrow> nat" where
  "digit_value c = of_char c - 48"

definition digits_value :: "string \<Rightarrow> nat" where
  "digits_value ds = foldl (\<lambda>acc c. 10 * acc + digit_value c) 0 ds"

definition stoi :: "string \<Rightarrow> error + int32" where
  "stoi str =
     (let s1 = dropWhile isspace str;
          negative = (s1 \<noteq> [] \<and> hd s1 = CHR ''-'');
          s2 = (if s1 \<noteq> [] \<and> (hd s1 = CHR ''-'' \<or> hd s1 = CHR ''+'') then tl s1 else s1);
          ds = takeWhile isdigit s2;
          v = (if negative then - int (digits_value ds) else int (digits_value ds))
      in if ds = [] then Inl InvalidArgument
         else if v < - (2 ^ 31) \<or> 2 ^ 31 - 1 < v then Inl OutOfRange
         else Inr (word_of_int v))"

text \<open>\<open>std::to_string(int)\<close>: the decimal digits, after a minus sign when negative.\<close>

definition digit_char :: "nat \<Rightarrow> char" where
  "digit_char d = char_of (48 + d)"

fun decimal :: "nat \<Rightarrow> string" where
  "decimal n = (if n < 10 then [digit_char n]
                else decimal (n div 10) @ [digit_char (n mod 10)])"

declare decimal.simps [simp del]

definition std_to_string :: "int32 \<Rightarrow> string" where
  "std_to_string w =
     (if sint w < 0 then CHR ''-'' # decimal (nat (- sint w)) else decimal (nat (sint w)))"

text \<open>
  The four conversions. The branch of \<open>if constexpr\<close> is fixed by the element type
  \<open>U\<close>, so each conversion is given for \<open>U = string\<close> and for an arithmetic \<open>U\<close>;
  what the language does to one arithmetic element (\<open>static_cast\<close>,
  \<open>std::to_string\<close>) is a parameter, and so are \<open>std::stod\<close> and \<open>0.0\<close>.
  \<open>catch (...)\<close> turns every exception of the parser into the zero value.
\<close>

definition to_int_string :: "string Store \<Rightarrow> error + int32 Store" where
  "to_int_string s =
     (if vec_empty (m_data s) then Inl RuntimeError
      else Inr (fold (\<lambda>val result.
                  push_back result (case stoi val of Inr n \<Rightarrow> n | Inl e \<Rightarrow> 0))
                (elems (m_data s)) Store_default))"

definition to_int_arith :: "('a \<Rightarrow> int32) \<Rightarrow> 'a Store \<Rightarrow> error + int32 Store" where
  "to_int_arith cast s =
     (if vec_empty (m_data s) then Inl RuntimeError
      else Inr (fold (\<lambda>val result. push_back result (cast val))
                (elems (m_data s)) Store_default))"

definition to_double_string ::
  "(string \<Rightarrow> error + 'd) \<Rightarrow> 'd \<Rightarrow> string Store \<Rightarrow> error + 'd Store" where
  "to_double_string stod zero s =
     (if vec_empty (m_data s) then Inl RuntimeError
      else Inr (fold (\<lambda>val result.
                  push_back result (case stod val of Inr x \<Rightarrow> x | Inl e \<Rightarrow> zero))
                (elems (m_data s)) Store_default))"

definition to_double_arith :: "('a \<Rightarrow> 'd) \<Rightarrow> 'a Store \<Rightarrow> error + 'd Store" where
  "to_double_arith cast s =
     (if vec_empty (m_data s) then Inl RuntimeError
      else Inr (fold (\<lambda>val result. push_back result (cast val))
                (elems (m_data s)) Store_default))"

definition to_char_string :: "string Store \<Rightarrow> error + char Store" where
  "to_char_string s =
     (if vec_empty (m_data s) then Inl RuntimeError
      else Inr (fold (\<lambda>val result.
                  if val \<noteq> [] then push_back result (hd val)
                  else push_back result (CHR 0x00))
                (elems (m_data s)) Store_default))"

definition to_char_arith :: "('a \<Rightarrow> char) \<Rightarrow> 'a Store \<Rightarrow> error + char Store" where
  "to_char_arith cast s =
     (if vec_empty (m_data s) then Inl RuntimeError
      else Inr (fold (\<lambda>val result. push_back result (cast val))
                (elems (m_data s)) Store_default))"

definition to_string_arith :: "('a \<Rightarrow> string) \<Rightarrow> 'a Store \<Rightarrow> error + string Store" where
  "to_string_arith to_str s =
     (if vec_empty (m_data s) then Inl RuntimeError
      else Inr (fold (\<lambda>val result. push_back result (to_str val))
                (elems (m_data s)) Store_default))"

definition to_string_string :: "string Store \<Rightarrow> error + string Store" where
  "to_string_string s =
     (if vec_empty (m_data s) then Inl RuntimeError
      else Inr (fold (\<lambda>val result. push_back result val)
                (elems (m_data s)) Store_default))"

section \<open>Stores reached by sequences of operations\<close>

text \<open>
  The stores a program can hold: those the constructors build (default, sized, and
  from an initializer list, an iterator range or a range, which all copy a sequence),
  and those an operation leaves behind when applied to such stores. An operation
  that throws leaves the store it found. \<open>pop_back\<close> of the minimal variant
  contributes only where its behaviour is defined.
\<close>

definition size_within_capacity :: "'a Store \<Rightarrow> bool" where
  "size_within_capacity s = (size_store s \<le> capacity s)"

definition holds_after :: "('a Store \<Rightarrow> bool) \<Rightarrow> 'a Store option \<Rightarrow> bool" where
  "holds_after P r = (case r of None \<Rightarrow> False | Some s \<Rightarrow> P s)"

inductive_set full_reachable :: "'a::linorder Store set" where
  full_default: "Store_default \<in> full_reachable"
| full_sized: "Store_sized d n \<in> full_reachable"
| full_list: "Store_list xs \<in> full_reachable"
| full_plus_assign:
    "s \<in> full_reachable \<Longrightarrow> t \<in> full_reachable \<Longrightarrow> plus_assign s t \<in> full_reachable"
| full_reserve: "s \<in> full_reachable \<Longrightarrow> reserve s n \<in> full_reachable"
| full_resize: "s \<in> full_reachable \<Longrightarrow> resize d s n \<in> full_reachable"
| full_clear: "s \<in> full_reachable \<Longrightarrow> clear s \<in> full_reachable"
| full_shrink_to_fit: "s \<in> full_reachable \<Longrightarrow> shrink_to_fit s \<in> full_reachable"
| full_pop_front: "s \<in> full_reachable \<Longrightarrow> snd (pop_front s) \<in> full_reachable"
| full_pop_back: "s \<in> full_reachable \<Longrightarrow> snd (pop_back s) \<in> full_reachable"
| full_remove_at: "s \<in> full_reachable \<Longrightarrow> snd (remove_at s pos) \<in> full_reachable"
| full_insert: "s \<in> full_reachable \<Longrightarrow> snd (insert_store s pos v) \<in> full_reachable"
| full_replace_at: "s \<in> full_reachable \<Longrightarrow> snd (replace_at s pos v) \<in> full_reachable"
| full_replace_all: "s \<in> full_reachable \<Longrightarrow> replace_all s v w \<in> full_reachable"
| full_fill: "s \<in> full_reachable \<Longrightarrow> fill s v \<in> full_reachable"
| full_reverse: "s \<in> full_reachable \<Longrightarrow> reverse s \<in> full_reachable"
| full_swap_this:
    "s \<in> full_reachable \<Longrightarrow> t \<in> full_reachable \<Longrightarrow> fst (swap_store s t) \<in> full_reachable"
| full_swap_other:
    "s \<in> full_reachable \<Longrightarrow> t \<in> full_reachable \<Longrightarrow> snd (swap_store s t) \<in> full_reachable"
| full_push_front_range: "s \<in> full_reachable \<Longrightarrow> push_front_range s xs \<in> full_reachable"
| full_push_front: "s \<in> full_reachable \<Longrightarrow> push_front s v \<in> full_reachable"
| full_push_back_range: "s \<in> full_reachable \<Longrightarrow> push_back_range s xs \<in> full_reachable"
| full_push_back: "s \<in> full_reachable \<Longrightarrow> push_back s v \<in> full_reachable"
| full_emplace_back: "s \<in> full_reachable \<Longrightarrow> emplace_back s v \<in> full_reachable"
| full_emplace_front: "s \<in> full_reachable \<Longrightarrow> emplace_front s v \<in> full_reachable"
| full_transform: "s \<in> full_reachable \<Longrightarrow> transform s f \<in> full_reachable"
| full_filter: "s \<in> full_reachable \<Longrightarrow> filter_store s p \<in> full_reachable"
| full_sort: "s \<in> full_reachable \<Longrightarrow> sort_store s asc \<in> full_reachable"
| full_unique: "s \<in> full_reachable \<Longrightarrow> unique s auto_sort \<in> full_reachable"

inductive_set mini_reachable :: "'a::linorder Store set" where
  mini_default: "Store_default \<in> mini_reachable"
| mini_sized: "Store_sized d n \<in> mini_reachable"
| mini_list: "Store_list xs \<in> mini_reachable"
| mini_r_reserve: "s \<in> mini_reachable \<Longrightarrow> mini_reserve s n \<in> mini_reachable"
| mini_r_resize: "s \<in> mini_reachable \<Longrightarrow> mini_resize d s n \<in> mini_reachable"
| mini_r_shrink_to_fit: "s \<in> mini_reachable \<Longrightarrow> mini_shrink_to_fit s \<in> mini_reachable"
| mini_r_clear: "s \<in> mini_reachable \<Longrightarrow> mini_clear s \<in> mini_reachable"
| mini_r_push_front: "s \<in> mini_reachable \<Longrightarrow> mini_push_front s v \<in> mini_reachable"
| mini_r_pop_front: "s \<in> mini_reachable \<Longrightarrow> mini_pop_front s \<in> mini_reachable"
| mini_r_push_back: "s \<in> mini_reachable \<Longrightarrow> mini_push_back s v \<in> mini_reachable"
| mini_r_pop_back:
    "s \<in> mini_reachable \<Longrightarrow> mini_pop_back s = Some s' \<Longrightarrow> s' \<in> mini_reachable"
| mini_r_emplace_back: "s \<in> mini_reachable \<Longrightarrow> mini_emplace_back s v \<in> mini_reachable"
| mini_r_emplace_front: "s \<in> mini_reachable \<Longrightarrow> mini_emplace_front s v \<in> mini_reachable"
| mini_r_fill: "s \<in> mini_reachable \<Longrightarrow> mini_fill s v \<in> mini_reachable"
| mini_r_reverse: "s \<in> mini_reachable \<Longrightarrow> mini_reverse s \<in> mini_reachable"
| mini_r_sort: "s \<in> mini_reachable \<Longrightarrow> mini_sort s asc \<in> mini_reachable"
| mini_r_unique: "s \<in> mini_reachable \<Longrightarrow> mini_unique s \<in> mini_reachable"
| mini_r_remove_at: "s \<in> mini_reachable \<Longrightarrow> mini_remove_at s pos \<in> mini_reachable"
| mini_r_insert: "s \<in> mini_reachable \<Longrightarrow> mini_insert s pos v \<in> mini_reachable"
| mini_r_replace_all: "s \<in> mini_reachable \<Longrightarrow> mini_replace_all s v w \<in> mini_reachable"

section \<open>Auxiliary facts\<close>

lemma sorted_distinct_remdups_adj: "sorted xs \<Longrightarrow> distinct (remdups_adj xs)"
  by (induction xs rule: remdups_adj.induct) auto

lemma max_element_fold: "max_element m xs = fold max xs m"
  by (induction xs arbitrary: m) (auto simp: max_def)

lemma min_element_fold: "min_element m xs = fold min xs m"
  by (induction xs arbitrary: m) (auto simp: min_def)

lemma max_element_Max: "xs \<noteq> [] \<Longrightarrow> max_element (hd xs) (tl xs) = Max (set xs)"
proof (cases xs)
  case (Cons a list)
  then show ?thesis
    using Max.set_eq_fold [of a list] by (simp add: max_element_fold)
qed simp

lemma min_element_Min: "xs \<noteq> [] \<Longrightarrow> min_element (hd xs) (tl xs) = Min (set xs)"
proof (cases xs)
  case (Cons a list)
  then show ?thesis
    using Min.set_eq_fold [of a list] by (simp add: min_element_fold)
qed simp

lemma push_back_loop_elems:
  "elems (m_data (fold (\<lambda>val result. push_back result (f val)) xs r))
     = elems (m_data r) @ map f xs"
  by (induction xs arbitrary: r) (simp_all add: push_back_def vec_push_back_def)

lemma filter_loop_elems:
  "elems (m_data (fold (\<lambda>elem result. if pred elem then push_back result elem else result) xs r))
     = elems (m_data r) @ filter pred xs"
  by (induction xs arbitrary: r) (simp_all add: push_back_def vec_push_back_def)

lemma digit_char_props:
  assumes "d < 10"
  shows "isdigit (digit_char d)" "digit_value (digit_char d) = d" "\<not> isspace (digit_char d)"
    "digit_char d \<noteq> CHR ''-''" "digit_char d \<noteq> CHR ''+''"
proof -
  have v: "of_char (digit_char d) = 48 + d"
    using assms by (simp add: digit_char_def)
  show "isdigit (digit_char d)" using assms by (simp add: isdigit_def v)
  show "digit_value (digit_char d) = d" by (simp add: digit_value_def v)
  have ne: "\<And>c. (of_char c :: nat) < 48 \<Longrightarrow> digit_char d \<noteq> c"
    using v by auto
  show "\<not> isspace (digit_char d)"
    unfolding isspace_def using ne [of "CHR '' ''"] ne [of "CHR 0x09"] ne [of "CHR 0x0A"]
      ne [of "CHR 0x0B"] ne [of "CHR 0x0C"] ne [of "CHR 0x0D"] by simp
  show "digit_char d \<noteq> CHR ''-''" using ne [of "CHR ''-''"] by simp
  show "digit_char d \<noteq> CHR ''+''" using ne [of "CHR ''+''"] by simp
qed

lemma decimal_not_Nil: "decimal n \<noteq> []"
  by (subst decimal.simps) simp

lemma decimal_digits: "c \<in> set (decimal n) \<Longrightarrow> isdigit c"
proof (induction n arbitrary: c rule: decimal.induct)
  case (1 n)
  show ?case
  proof (cases "n < 10")
    case True
    with "1.prems" show ?thesis
      by (subst (asm) decimal.simps) (simp add: digit_char_props)
  next
    case False
    with "1.prems" have "c \<in> set (decimal (n div 10)) \<or> c = digit_char (n mod 10)"
      by (subst (asm) decimal.simps) auto
    with False "1.IH" show ?thesis
      by (auto simp: digit_char_props)
  qed
qed

lemma digits_value_snoc: "digits_value (ds @ [c]) = 10 * digits_value ds + digit_value c"
  by (simp add: digits_value_def)

lemma digits_value_decimal: "digits_value (decimal n) = n"
proof (induction n rule: decimal.induct)
  case (1 n)
  show ?case
  proof (cases "n < 10")
    case True
    then show ?thesis
      by (subst decimal.simps) (simp add: digits_value_def digit_char_props)
  next
    case False
    with "1.IH" show ?thesis
      by (subst decimal.simps) (simp add: digits_value_snoc digit_char_props)
  qed
qed

lemma hd_decimal_digit: "isdigit (hd (decimal n))"
  using decimal_digits [of "hd (decimal n)" n] decimal_not_Nil [of n] by simp

lemma isdigit_not_space_sign:
  "isdigit c \<Longrightarrow> \<not> isspace c \<and> c \<noteq> CHR ''-'' \<and> c \<noteq> CHR ''+''"
  by (auto simp: isdigit_def isspace_def)

lemma stoi_decimal:
  "stoi (decimal n) = (if int n \<le> 2 ^ 31 - 1 then Inr (word_of_int (int n)) else Inl OutOfRange)"
proof -
  have d: "dropWhile isspace (decimal n) = decimal n"
    using hd_decimal_digit [of n] decimal_not_Nil [of n] isdigit_not_space_sign
    by (cases "decimal n") auto
  have h: "hd (decimal n) \<noteq> CHR ''-''" "hd (decimal n) \<noteq> CHR ''+''"
    using hd_decimal_digit [of n] isdigit_not_space_sign by blast+
  have t: "takeWhile isdigit (decimal n) = decimal n"
    by (simp add: takeWhile_eq_all_conv decimal_digits)
  show ?thesis
    by (simp add: stoi_def d h t Let_def decimal_not_Nil digits_value_decimal)
qed

lemma stoi_minus_decimal:
  "stoi (CHR ''-'' # decimal n) =
     (if int n \<le> 2 ^ 31 then Inr (word_of_int (- int n)) else Inl OutOfRange)"
proof -
  have t: "takeWhile isdigit (decimal n) = decimal n"
    by (simp add: takeWhile_eq_all_conv decimal_digits)
  have sp: "\<not> isspace (CHR ''-'')" by (simp add: isspace_def)
  show ?thesis
    by (simp add: stoi_def sp t Let_def decimal_not_Nil digits_value_decimal)
qed

lemma stoi_std_to_string: "stoi (std_to_string w) = Inr w"
proof -
  have lo: "- (2 ^ 31) \<le> sint w" using sint_ge [of w] by simp
  have hi: "sint w < 2 ^ 31" using sint_lt [of w] by simp
  show ?thesis
  proof (cases "sint w < 0")
    case True
    with lo show ?thesis
      by (simp add: std_to_string_def stoi_minus_decimal)
  next
    case False
    with hi show ?thesis
      by (simp add: std_to_string_def stoi_decimal)
  qed
qed

lemma size_within_capacity_iff:
  "size_within_capacity s \<longleftrightarrow> length (elems (m_data s)) \<le> cap (m_data s)"
  by (simp add: size_within_capacity_def size_store_def capacity_def vec_size_def
      vec_capacity_def)

lemma vec_push_back_fits:
  "length (elems v) \<le> cap v \<Longrightarrow>
   length (elems (vec_push_back v x)) \<le> cap (vec_push_back v x)"
  by (simp add: vec_push_back_def vec_check_len_def vec_size_def)

lemma vec_insert_fits:
  "length (elems v) \<le> cap v \<Longrightarrow> pos \<le> length (elems v) \<Longrightarrow>
   length (elems (vec_insert v pos x)) \<le> cap (vec_insert v pos x)"
  by (simp add: vec_insert_def vec_check_len_def vec_size_def)

lemma vec_insert_range_fits:
  "length (elems v) \<le> cap v \<Longrightarrow> pos \<le> length (elems v) \<Longrightarrow>
   length (elems (vec_insert_range v pos xs)) \<le> cap (vec_insert_range v pos xs)"
  by (auto simp: vec_insert_range_def vec_check_len_def vec_size_def)

lemma vec_erase_fits:
  "length (elems v) \<le> cap v \<Longrightarrow> length (elems (vec_erase v pos)) \<le> cap (vec_erase v pos)"
  by (simp add: vec_erase_def)

lemma vec_pop_back_fits:
  "length (elems v) \<le> cap v \<Longrightarrow> length (elems (vec_pop_back v)) \<le> cap (vec_pop_back v)"
  by (simp add: vec_pop_back_def)

lemma vec_reserve_fits:
  "length (elems v) \<le> cap v \<Longrightarrow> length (elems (vec_reserve v n)) \<le> cap (vec_reserve v n)"
  by (simp add: vec_reserve_def)

lemma vec_resize_fits:
  "length (elems v) \<le> cap v \<Longrightarrow>
   length (elems (vec_resize d v n)) \<le> cap (vec_resize d v n)"
  by (auto simp: vec_resize_def vec_check_len_def vec_size_def)

lemma vec_clear_fits: "length (elems (vec_clear v)) \<le> cap (vec_clear v)"
  by (simp add: vec_clear_def)

lemma vec_shrink_to_fit_fits:
  "length (elems (vec_shrink_to_fit v)) \<le> cap (vec_shrink_to_fit v)"
  by (simp add: vec_shrink_to_fit_def vec_size_def)

lemma vec_unique_fits:
  "length (elems v) \<le> cap v \<Longrightarrow> length (elems (vec_unique v)) \<le> cap (vec_unique v)"
  using remdups_adj_length [of "elems v"] by (simp add: vec_unique_def del: remdups_adj_length)

lemmas vec_fits = vec_push_back_fits vec_insert_fits vec_insert_range_fits vec_erase_fits
  vec_pop_back_fits vec_reserve_fits vec_resize_fits vec_clear_fits vec_shrink_to_fit_fits
  vec_unique_fits

lemma filter_loop_fits:
  "size_within_capacity r \<Longrightarrow>
   size_within_capacity
     (fold (\<lambda>elem result. if pred elem then push_back result elem else result) xs r)"
  by (induction xs arbitrary: r)
    (simp_all add: size_within_capacity_iff push_back_def vec_push_back_fits)

lemma full_reachable_fits: "s \<in> full_reachable \<Longrightarrow> size_within_capacity s"
proof (induction rule: full_reachable.induct)
  case (full_filter s p)
  show ?case unfolding filter_store_def
    by (rule filter_loop_fits)
      (simp add: size_within_capacity_iff Store_default_def vec_default_def)
next
  case (full_unique s auto_sort)
  then show ?case
    by (simp add: size_within_capacity_iff unique_def sort_store_def vec_unique_fits Let_def)
qed (simp_all add: size_within_capacity_iff vec_fits Store_default_def vec_default_def
      Store_sized_def vec_sized_def Store_list_def vec_range_def plus_assign_def reserve_def
      resize_def clear_def shrink_to_fit_def pop_front_def pop_back_def remove_at_def
      insert_store_def replace_at_def replace_all_def fill_def reverse_def swap_store_def
      push_front_range_def push_front_def push_back_range_def push_back_def emplace_back_def
      emplace_front_def transform_def sort_store_def vec_size_def vec_empty_def)

lemma mini_reachable_fits: "s \<in> mini_reachable \<Longrightarrow> size_within_capacity s"
proof (induction rule: mini_reachable.induct)
  case (mini_r_pop_back s s')
  then show ?case
    by (auto simp: size_within_capacity_iff mini_pop_back_def vec_pop_back_fits
        split: if_splits)
qed (simp_all add: size_within_capacity_iff vec_fits Store_default_def vec_default_def
      Store_sized_def vec_sized_def Store_list_def vec_range_def mini_reserve_def
      mini_resize_def mini_shrink_to_fit_def mini_clear_def mini_push_front_def
      mini_pop_front_def mini_push_back_def mini_emplace_back_def mini_emplace_front_def
      mini_fill_def mini_reverse_def mini_sort_def mini_unique_def mini_remove_at_def
      mini_insert_def mini_replace_all_def vec_size_def vec_empty_def)

section \<open>Deduplication\<close>

text \<open>
  Claim C1. \<open>unique()\<close> of the full variant, with the default \<open>auto_sort = true\<close>,
  sorts ascending and then drops equal neighbours, so for every store the result is
  sorted, free of duplicates and has the elements of the store; \<open>unique()\<close> of the
  minimal variant only drops equal neighbours. On \<open>[5,2,8,1,9,2,5]\<close> the first
  gives \<open>[1,2,5,8,9]\<close> and the second leaves the store as it is.
\<close>

theorem C1_unique_variants:
  "elems (m_data (unique s True)) = remdups_adj (sort (elems (m_data s))) \<and>
   sorted (elems (m_data (unique s True))) \<and>
   distinct (elems (m_data (unique s True))) \<and>
   set (elems (m_data (unique s True))) = set (elems (m_data s)) \<and>
   elems (m_data (mini_unique s)) = remdups_adj (elems (m_data s)) \<and>
   elems (m_data (unique (Store_list [5, 2, 8, 1, 9, 2, 5 :: int]) True)) = [1, 2, 5, 8, 9] \<and>
   mini_unique (Store_list [5, 2, 8, 1, 9, 2, 5 :: int]) = Store_list [5, 2, 8, 1, 9, 2, 5]"
  by (simp add: unique_def sort_store_def vec_unique_def mini_unique_def
      sorted_distinct_remdups_adj Store_list_def vec_range_def)

theorem C1_unique_variants_witness:
  "elems (m_data (unique (Store_list [3, 1, 3, 2, 1 :: nat]) True)) = [1, 2, 3] \<and>
   elems (m_data (mini_unique (Store_list [3, 3, 1, 3, 2, 2 :: nat]))) = [3, 1, 3, 2]"
  using C1_unique_variants [of "Store_list [3, 1, 3, 2, 1 :: nat]"]
    C1_unique_variants [of "Store_list [3, 3, 1, 3, 2, 2 :: nat]"]
  by (simp add: Store_list_def vec_range_def)

section \<open>Bounds checking\<close>

text \<open>
  Claim C4. In the full variant \<open>at(pos)\<close> throws \<open>OutOfRange\<close> exactly when
  \<open>pos \<ge> size\<close> and otherwise returns the element at \<open>pos\<close>; \<open>front\<close>, \<open>back\<close>,
  \<open>max\<close>, \<open>min\<close> and \<open>mid\<close> throw \<open>OutOfRange\<close> exactly when the store is empty, and
  otherwise return the first, the last, the largest, the smallest and the middle
  element. These member functions only read: they are functions of the store and
  return no store, so the store is the same after the call, thrown or not.
\<close>

theorem C4_full_bounds_checking:
  "(at_store s pos = Inl OutOfRange \<longleftrightarrow> pos \<ge> size_store s) \<and>
   (pos < size_store s \<longrightarrow> at_store s pos = Inr (elems (m_data s) ! pos)) \<and>
   (front s = Inl OutOfRange \<longleftrightarrow> empty_store s) \<and>
   (back_store s = Inl OutOfRange \<longleftrightarrow> empty_store s) \<and>
   (max_store s = Inl OutOfRange \<longleftrightarrow> empty_store s) \<and>
   (min_store s = Inl OutOfRange \<longleftrightarrow> empty_store s) \<and>
   (mid s = Inl OutOfRange \<longleftrightarrow> empty_store s) \<and>
   (\<not> empty_store s \<longrightarrow>
      front s = Inr (hd (elems (m_data s))) \<and>
      back_store s = Inr (last (elems (m_data s))) \<and>
      max_store s = Inr (Max (set (elems (m_data s)))) \<and>
      min_store s = Inr (Min (set (elems (m_data s)))) \<and>
      mid s = Inr (elems (m_data s) ! (size_store s div 2)))"
  by (simp add: at_store_def front_def back_store_def max_store_def min_store_def mid_def
      size_store_def empty_store_def vec_empty_def vec_size_def
      max_element_Max min_element_Min)

theorem C4_full_bounds_checking_witness:
  "at_store (Store_list [5, 2, 8 :: int]) 5 = Inl OutOfRange \<and>
   at_store (Store_list [5, 2, 8 :: int]) 1 = Inr 2 \<and>
   front (Store_list [5, 2, 8 :: int]) = Inr 5 \<and>
   back_store (Store_list [5, 2, 8 :: int]) = Inr 8 \<and>
   max_store (Store_list [5, 2, 8 :: int]) = Inr 8 \<and>
   min_store (Store_list [5, 2, 8 :: int]) = Inr 2 \<and>
   mid (Store_list [5, 2, 8 :: int]) = Inr 2 \<and>
   front (Store_default :: int Store) = Inl OutOfRange \<and>
   back_store (Store_default :: int Store) = Inl OutOfRange \<and>
   max_store (Store_default :: int Store) = Inl OutOfRange \<and>
   min_store (Store_default :: int Store) = Inl OutOfRange \<and>
   mid (Store_default :: int Store) = Inl OutOfRange"
  using C4_full_bounds_checking [of "Store_list [5, 2, 8 :: int]" 5]
    C4_full_bounds_checking [of "Store_list [5, 2, 8 :: int]" 1]
    C4_full_bounds_checking [of "Store_default :: int Store" 0]
  by (simp add: Store_list_def vec_range_def Store_default_def vec_default_def
      size_store_def empty_store_def vec_size_def vec_empty_def)

text \<open>
  Claim C9. \<open>at(pos)\<close> of the minimal variant is checked as well: it goes through
  \<open>vector::at\<close>, so it throws the out-of-range exception when \<open>pos \<ge> size\<close> and
  returns the element at \<open>pos\<close> when \<open>pos < size\<close>.
\<close>

theorem C9_mini_at_checked:
  "(pos \<ge> size_store s \<longrightarrow> mini_at s pos = Inl OutOfRange) \<and>
   (pos < size_store s \<longrightarrow> mini_at s pos = Inr (elems (m_data s) ! pos))"
  by (simp add: mini_at_def vec_at_def size_store_def)

theorem C9_mini_at_checked_witness:
  "mini_at (Store_list [10, 20, 30 :: int]) 3 = Inl OutOfRange \<and>
   mini_at (Store_list [10, 20, 30 :: int]) 2 = Inr 30"
  using C9_mini_at_checked [where s = "Store_list [10, 20, 30 :: int]" and pos = 3]
    C9_mini_at_checked [where s = "Store_list [10, 20, 30 :: int]" and pos = 2]
  by (simp add: Store_list_def vec_range_def size_store_def vec_size_def)

section \<open>Removal at the front\<close>

text \<open>
  Claim C6. On an empty store \<open>pop_front()\<close> of the full variant throws
  \<open>OutOfRange\<close> and leaves the store as it was, and \<open>pop_front()\<close> of the minimal
  variant returns without a change and without an exception. On a non-empty store
  both remove the first element and nothing else: every remaining element moves down
  by one position.
\<close>

theorem C6_pop_front_variants:
  "(empty_store s \<longrightarrow> pop_front s = (Some OutOfRange, s) \<and> mini_pop_front s = s) \<and>
   (\<not> empty_store s \<longrightarrow>
      fst (pop_front s) = None \<and>
      snd (pop_front s) = mini_pop_front s \<and>
      elems (m_data (mini_pop_front s)) = tl (elems (m_data s)) \<and>
      size_store (mini_pop_front s) = size_store s - 1 \<and>
      (\<forall>i < size_store s - 1.
         elems (m_data (mini_pop_front s)) ! i = elems (m_data s) ! Suc i))"
  by (simp add: pop_front_def mini_pop_front_def empty_store_def vec_empty_def vec_erase_def
      size_store_def vec_size_def drop_Suc nth_tl)

theorem C6_pop_front_variants_witness:
  "pop_front (Store_default :: int Store) = (Some OutOfRange, Store_default) \<and>
   mini_pop_front (Store_default :: int Store) = Store_default \<and>
   fst (pop_front (Store_list [1, 5, 10 :: int])) = None \<and>
   elems (m_data (snd (pop_front (Store_list [1, 5, 10 :: int])))) = [5, 10] \<and>
   elems (m_data (mini_pop_front (Store_list [1, 5, 10 :: int]))) = [5, 10]"
  using C6_pop_front_variants [of "Store_default :: int Store"]
    C6_pop_front_variants [of "Store_list [1, 5, 10 :: int]"]
  by (simp add: Store_list_def vec_range_def Store_default_def vec_default_def
      empty_store_def vec_empty_def)

section \<open>Filtering\<close>

text \<open>
  Claim C5. \<open>filter(pred)\<close> returns a new store that holds exactly the elements of
  the store for which \<open>pred\<close> holds, in their order; it is a \<open>const\<close> member
  function, a function of the store that returns no changed source. Filtering
  \<open>[1,2,3,4,5]\<close> by evenness gives \<open>[2,4]\<close>.
\<close>

theorem C5_filter_selection:
  "elems (m_data (filter_store s pred)) = filter pred (elems (m_data s)) \<and>
   elems (m_data (filter_store (Store_list [1, 2, 3, 4, 5 :: int]) even)) = [2, 4] \<and>
   size_store (filter_store (Store_list [1, 2, 3, 4, 5 :: int]) even) = 2"
  by (simp add: filter_store_def filter_loop_elems Store_default_def vec_default_def
      Store_list_def vec_range_def size_store_def vec_size_def push_back_def vec_push_back_def)

theorem C5_filter_selection_witness:
  "elems (m_data (filter_store (Store_list [3, 8, 5, 10 :: nat]) (\<lambda>n. n > 4))) = [8, 5, 10]"
  using C5_filter_selection [of "Store_list [3, 8, 5, 10 :: nat]" "\<lambda>n. n > 4"]
  by (simp add: Store_list_def vec_range_def)

section \<open>Typed conversion\<close>

text \<open>
  Claim C2. On a non-empty store of strings \<open>to_int()\<close> throws nothing and returns a
  new store of the same length; at every position the text that \<open>std::stoi\<close>
  parses has become the integer parsed, and the text on which \<open>std::stoi\<close> throws
  has become 0.
\<close>

theorem C2_to_int_parse_recovery:
  "\<not> empty_store s \<longrightarrow>
     (\<exists>r. to_int_string s = Inr r \<and> size_store r = size_store s \<and>
        elems (m_data r) =
          map (\<lambda>val. case stoi val of Inr n \<Rightarrow> n | Inl e \<Rightarrow> 0) (elems (m_data s)) \<and>
        (\<forall>i < size_store s.
           (\<forall>n. stoi (elems (m_data s) ! i) = Inr n \<longrightarrow> elems (m_data r) ! i = n) \<and>
           (\<forall>e. stoi (elems (m_data s) ! i) = Inl e \<longrightarrow> elems (m_data r) ! i = 0)))"
  by (auto simp: to_int_string_def empty_store_def size_store_def vec_size_def
      push_back_loop_elems Store_default_def vec_default_def)

theorem C2_to_int_parse_recovery_witness:
  "\<exists>r. to_int_string (Store_list [''12'', ''abc'', ''7'']) = Inr r \<and>
       size_store r = 3 \<and> elems (m_data r) = [12, 0, 7]"
proof -
  have p: "stoi ''12'' = Inr 12" "stoi ''abc'' = Inl InvalidArgument" "stoi ''7'' = Inr 7"
    by (simp_all add: stoi_def isspace_def isdigit_def digits_value_def digit_value_def)
  have ne: "\<not> empty_store (Store_list [''12'', ''abc'', ''7''])"
    by (simp add: empty_store_def vec_empty_def Store_list_def vec_range_def)
  from C2_to_int_parse_recovery [of "Store_list [''12'', ''abc'', ''7'']"] ne p
  show ?thesis
    by (auto simp: size_store_def vec_size_def Store_list_def vec_range_def)
qed

text \<open>
  Claim C3. Each of \<open>to_int()\<close>, \<open>to_double()\<close>, \<open>to_char()\<close> and \<open>to_string()\<close>,
  for a store of strings and for a store of an arithmetic type, throws
  \<open>RuntimeError\<close> exactly when the store is empty, and on a non-empty store returns
  a store and throws nothing. The conversions are \<open>const\<close> member functions,
  functions of the source store that return no changed source.
\<close>

theorem C3_empty_source_guard:
  fixes s :: "string Store" and a :: "'a Store"
  shows
  "(to_int_string s = Inl RuntimeError \<longleftrightarrow> empty_store s) \<and>
   (to_double_string stod zero s = Inl RuntimeError \<longleftrightarrow> empty_store s) \<and>
   (to_char_string s = Inl RuntimeError \<longleftrightarrow> empty_store s) \<and>
   (to_string_string s = Inl RuntimeError \<longleftrightarrow> empty_store s) \<and>
   (to_int_arith cast_int a = Inl RuntimeError \<longleftrightarrow> empty_store a) \<and>
   (to_double_arith cast_double a = Inl RuntimeError \<longleftrightarrow> empty_store a) \<and>
   (to_char_arith cast_char a = Inl RuntimeError \<longleftrightarrow> empty_store a) \<and>
   (to_string_arith to_str a = Inl RuntimeError \<longleftrightarrow> empty_store a) \<and>
   (\<not> empty_store s \<longrightarrow>
      (\<exists>r. to_int_string s = Inr r) \<and> (\<exists>r. to_double_string stod zero s = Inr r) \<and>
      (\<exists>r. to_char_string s = Inr r) \<and> (\<exists>r. to_string_string s = Inr r)) \<and>
   (\<not> empty_store a \<longrightarrow>
      (\<exists>r. to_int_arith cast_int a = Inr r) \<and> (\<exists>r. to_double_arith cast_double a = Inr r) \<and>
      (\<exists>r. to_char_arith cast_char a = Inr r) \<and> (\<exists>r. to_string_arith to_str a = Inr r))"
  by (simp add: to_int_string_def to_double_string_def to_char_string_def to_string_string_def
      to_int_arith_def to_double_arith_def to_char_arith_def to_string_arith_def empty_store_def)

theorem C3_empty_source_guard_witness:
  "to_int_string Store_default = Inl RuntimeError \<and>
   to_double_string (\<lambda>v. Inl InvalidArgument) (0 :: int) Store_default = Inl RuntimeError \<and>
   to_char_string Store_default = Inl RuntimeError \<and>
   to_string_string Store_default = Inl RuntimeError \<and>
   to_int_arith (\<lambda>x. x) Store_default = Inl RuntimeError \<and>
   to_double_arith sint (Store_default :: int32 Store) = Inl RuntimeError \<and>
   to_char_arith (\<lambda>x. char_of (unat x)) (Store_default :: int32 Store) = Inl RuntimeError \<and>
   to_string_arith std_to_string Store_default = Inl RuntimeError \<and>
   (\<exists>r. to_int_string (Store_list [''x'']) = Inr r) \<and>
   (\<exists>r. to_double_string (\<lambda>v. Inl InvalidArgument) (0 :: int) (Store_list [''x'']) = Inr r) \<and>
   (\<exists>r. to_char_string (Store_list [''x'']) = Inr r) \<and>
   (\<exists>r. to_string_string (Store_list [''x'']) = Inr r) \<and>
   (\<exists>r. to_int_arith (\<lambda>x. x) (Store_list [65]) = Inr r) \<and>
   (\<exists>r. to_double_arith sint (Store_list [65 :: int32]) = Inr r) \<and>
   (\<exists>r. to_char_arith (\<lambda>x. char_of (unat x)) (Store_list [65 :: int32]) = Inr r) \<and>
   (\<exists>r. to_string_arith std_to_string (Store_list [65]) = Inr r)"
  using C3_empty_source_guard [where s = Store_default
      and a = "Store_default :: int32 Store" and to_str = std_to_string and cast_int = "\<lambda>x. x"
      and stod = "\<lambda>v. Inl InvalidArgument" and zero = "0 :: int" and cast_double = sint
      and cast_char = "\<lambda>x. char_of (unat x)"]
    C3_empty_source_guard [where s = "Store_list [''x'']"
      and a = "Store_list [65 :: int32]" and to_str = std_to_string and cast_int = "\<lambda>x. x"
      and stod = "\<lambda>v. Inl InvalidArgument" and zero = "0 :: int" and cast_double = sint
      and cast_char = "\<lambda>x. char_of (unat x)"]
  by (simp add: empty_store_def vec_empty_def Store_default_def vec_default_def
      Store_list_def vec_range_def)

text \<open>
  Claim C7. For every non-empty store of \<open>int\<close>, \<open>to_string()\<close> followed by
  \<open>to_int()\<close> throws nothing and gives back the elements of the store, one for one.
\<close>

theorem C7_string_round_trip:
  "\<not> empty_store s \<longrightarrow>
     (\<exists>t r. to_string_arith std_to_string s = Inr t \<and>
        elems (m_data t) = map std_to_string (elems (m_data s)) \<and>
        to_int_string t = Inr r \<and>
        elems (m_data r) = elems (m_data s))"
  by (simp add: to_string_arith_def to_int_string_def empty_store_def vec_empty_def
      push_back_loop_elems Store_default_def vec_default_def stoi_std_to_string o_def)

theorem C7_string_round_trip_witness:
  "\<exists>t r. to_string_arith std_to_string (Store_list [1, 2, 3]) = Inr t \<and>
     elems (m_data t) = [''1'', ''2'', ''3''] \<and>
     to_int_string t = Inr r \<and>
     elems (m_data r) = [1, 2, 3]"
proof -
  have d: "std_to_string 1 = ''1''" "std_to_string 2 = ''2''" "std_to_string 3 = ''3''"
    by code_simp+
  show ?thesis
    using C7_string_round_trip [of "Store_list [1, 2, 3]"]
    by (simp add: empty_store_def vec_empty_def Store_list_def vec_range_def d)
qed

section \<open>Average\<close>

text \<open>
  Claim C10. \<open>average()\<close> of the minimal variant returns \<open>0.0\<close> on an empty store,
  without dividing, and on a non-empty store the sum converted to \<open>double\<close> divided
  by the size; it never divides by zero.
\<close>

theorem C10_average_total:
  "(empty_store s \<longrightarrow> mini_average A s = Some (zero_double A)) \<and>
   (\<not> empty_store s \<longrightarrow>
      mini_average A s =
        Some (divide_double A (double_of_T A (mini_sum A s)) (double_of_size A (size_store s)))) \<and>
   mini_average A s \<noteq> None"
  by (simp add: mini_average_def divide_by_size_def empty_store_def vec_empty_def
      size_store_def vec_size_def)

theorem C10_average_total_witness:
  "mini_average \<lparr>zero_T = 0 :: int, plus_T = (+), double_of_T = of_int,
       double_of_size = of_nat, divide_double = (/), zero_double = 0 :: rat\<rparr>
     Store_default = Some 0 \<and>
   mini_average \<lparr>zero_T = 0 :: int, plus_T = (+), double_of_T = of_int,
       double_of_size = of_nat, divide_double = (/), zero_double = 0 :: rat\<rparr>
     (Store_list [10, 20, 30, 40]) = Some 25"
  using C10_average_total [where s = "Store_default :: int Store" and A = "\<lparr>zero_T = 0 :: int,
      plus_T = (+), double_of_T = of_int, double_of_size = of_nat, divide_double = (/),
      zero_double = 0 :: rat\<rparr>"]
    C10_average_total [where s = "Store_list [10, 20, 30, 40 :: int]" and A = "\<lparr>zero_T = 0 :: int,
      plus_T = (+), double_of_T = of_int, double_of_size = of_nat, divide_double = (/),
      zero_double = 0 :: rat\<rparr>"]
  by (simp add: empty_store_def vec_empty_def Store_default_def vec_default_def
      Store_list_def vec_range_def mini_sum_def size_store_def vec_size_def)

section \<open>Size and capacity\<close>

text \<open>
  Claim C8, as amended. In the full variant, for every sequence of operations
  starting from any constructor, \<open>0 \<le> size() \<le> capacity()\<close> holds after every
  operation, thrown exceptions included. In the minimal variant the same holds for
  every sequence of operations in which \<open>pop_back()\<close> is not called on an empty
  store. The operations are the constructors, \<open>operator+=\<close>, \<open>reserve\<close>,
  \<open>resize\<close>, \<open>clear\<close>, \<open>shrink_to_fit\<close>, \<open>pop_front\<close>, \<open>pop_back\<close>,
  \<open>remove_at\<close>, \<open>insert\<close>, \<open>replace_at\<close>, \<open>replace_all\<close>, \<open>fill\<close>,
  \<open>reverse\<close>, \<open>swap\<close>, \<open>push_front\<close>, \<open>push_back\<close>, \<open>emplace_back\<close>,
  \<open>emplace_front\<close>, \<open>transform\<close>, \<open>filter\<close>, \<open>sort(bool)\<close> and \<open>unique\<close>, as
  far as each variant has them, on a linearly ordered element type. The stores that
  the conversions return are built by \<open>push_back\<close> on a default-constructed store.
\<close>

theorem C8_size_within_capacity:
  "(s \<in> full_reachable \<longrightarrow> 0 \<le> size_store s \<and> size_store s \<le> capacity s) \<and>
   (t \<in> mini_reachable \<longrightarrow> 0 \<le> size_store t \<and> size_store t \<le> capacity t)"
  using full_reachable_fits [of s] mini_reachable_fits [of t]
  by (simp add: size_within_capacity_def)

theorem C8_size_within_capacity_witness:
  "push_back (snd (pop_front (reserve (Store_list [1, 2, 3 :: int]) 3))) 7 \<in> full_reachable \<and>
   size_store (push_back (snd (pop_front (reserve (Store_list [1, 2, 3 :: int]) 3))) 7) = 3 \<and>
   capacity (push_back (snd (pop_front (reserve (Store_list [1, 2, 3 :: int]) 3))) 7) = 3 \<and>
   mini_push_front (mini_pop_front (Store_default :: int Store)) 4 \<in> mini_reachable \<and>
   size_store (mini_push_front (mini_pop_front (Store_default :: int Store)) 4) = 1 \<and>
   capacity (mini_push_front (mini_pop_front (Store_default :: int Store)) 4) = 1"
proof -
  have f: "push_back (snd (pop_front (reserve (Store_list [1, 2, 3 :: int]) 3))) 7
      \<in> full_reachable"
    by (intro full_reachable.intros)
  have m: "mini_push_front (mini_pop_front (Store_default :: int Store)) 4 \<in> mini_reachable"
    by (intro mini_reachable.intros)
  show ?thesis
    using f m
      C8_size_within_capacity [of
        "push_back (snd (pop_front (reserve (Store_list [1, 2, 3 :: int]) 3))) 7"
        "mini_push_front (mini_pop_front (Store_default :: int Store)) 4"]
    by (simp add: size_store_def capacity_def vec_size_def vec_capacity_def push_back_def
        vec_push_back_def pop_front_def vec_erase_def reserve_def vec_reserve_def
        Store_list_def vec_range_def vec_empty_def mini_push_front_def vec_insert_def
        mini_pop_front_def Store_default_def vec_default_def vec_check_len_def)
qed

text \<open>
  The claim as it stands fails in the minimal variant: \<open>pop_back()\<close> on a
  default-constructed store has undefined behaviour, and no store with
  \<open>size() \<le> capacity()\<close> comes out of it.
\<close>

theorem C8_mini_pop_back_counterexample:
  "\<not> holds_after size_within_capacity (mini_pop_back (Store_default :: int Store))"
  by (simp add: holds_after_def mini_pop_back_def vec_empty_def Store_default_def
      vec_default_def)

end
